theory Spec2Isabelle
  imports
    Main
    "HOL-Library.AList"
    "HOL-Library.Sublist"
    "HOL-Library.Char_ord"
    "HOL-Library.List_Lexorder"
begin

section \<open>Account deletion handler (aws/lambda/deletion/handler.py)\<close>

text \<open>
  The handler deletes a user's objects from one S3 bucket, either with direct
  multi-object deletes or through an S3 Batch Operations job, removes the user's
  identity mappings and scheduled-deletion entry, sweeps the deletions scheduled
  for today and reports the status of a batch job.

  The Python functions are embedded one by one under their own names. Every call
  of an AWS client is a function of an explicit bucket state (\<open>world\<close>) and of a
  fixed description of how the services answer (\<open>services\<close>): which requests
  fail, which tags and job ids they return, what the clock shows. A raised
  exception is the left injection of a sum, a \<open>try\<close>/\<open>except\<close> is a case
  distinction on it. Logging has no effect on any result and is left out.
\<close>

subsection \<open>Python values\<close>

text \<open>JSON-like values: what \<open>json.dumps\<close> accepts and \<open>json.loads\<close> returns.
  A \<open>dict\<close> keeps its insertion order.\<close>

datatype jval =
    JNull
  | JInt int
  | JStr string
  | JArr "jval list"
  | JObj "(string \<times> jval) list"

type_synonym dict = "(string \<times> jval) list"

text \<open>Exceptions: the one class the code names, and every other one with its
  message (\<open>str(e)\<close>).\<close>

datatype exn = NoSuchJob string | Exception string

fun str_exn :: "exn \<Rightarrow> string" where
  "str_exn (NoSuchJob m) = m"
| "str_exn (Exception m) = m"

text \<open>\<open>{'userId': user_id, **result}\<close>: later keys overwrite, positions stay.\<close>

definition dict_merge :: "dict \<Rightarrow> dict \<Rightarrow> dict" where
  "dict_merge d1 d2 = fold (\<lambda>(k, v). AList.update k v) d2 d1"

subsection \<open>Python string and sequence operations used by the handler\<close>

text \<open>Strings are lists of 8-bit characters. \<open>str.isspace\<close> is modelled on
  ASCII: the ten ASCII characters Python treats as whitespace.\<close>

definition py_isspace :: "char \<Rightarrow> bool" where
  "py_isspace c \<longleftrightarrow>
     c \<in> set [CHR 0x09, CHR 0x0A, CHR 0x0B, CHR 0x0C, CHR 0x0D,
              CHR 0x1C, CHR 0x1D, CHR 0x1E, CHR 0x1F, CHR 0x20]"

definition py_strip_chars :: "(char \<Rightarrow> bool) \<Rightarrow> string \<Rightarrow> string" where
  "py_strip_chars P s = rev (dropWhile P (rev (dropWhile P s)))"

definition py_strip :: "string \<Rightarrow> string" where
  "py_strip s = py_strip_chars py_isspace s"

text \<open>\<open>s.replace(old, new)\<close> for a non-empty \<open>old\<close> (the handler replaces
  \<open>'.json'\<close> and \<open>'Z'\<close>): leftmost non-overlapping occurrences.\<close>

function py_replace :: "string \<Rightarrow> string \<Rightarrow> string \<Rightarrow> string" where
  "py_replace old new [] = []"
| "py_replace old new (c # cs) =
     (if old \<noteq> [] \<and> prefix old (c # cs)
      then new @ py_replace old new (drop (length old) (c # cs))
      else c # py_replace old new cs)"
  by pat_completeness auto
termination
  by (relation "measure (\<lambda>(old, new, s). length s)") auto

text \<open>\<open>key.split('/')[-1]\<close>: what follows the last slash.\<close>

definition py_last_segment :: "string \<Rightarrow> string" where
  "py_last_segment key = rev (takeWhile (\<lambda>c. c \<noteq> CHR ''/'') (rev key))"

text \<open>\<open>sep.join(lines)\<close> and \<open>s.split(sep)\<close> for a one-character separator.\<close>

fun py_join :: "string \<Rightarrow> string list \<Rightarrow> string" where
  "py_join sep [] = []"
| "py_join sep [x] = x"
| "py_join sep (x # y # ys) = x @ sep @ py_join sep (y # ys)"

fun py_split :: "char \<Rightarrow> string \<Rightarrow> string list" where
  "py_split c [] = [[]]"
| "py_split c (x # xs) =
     (if x = c then [] # py_split c xs
      else (case py_split c xs of
              [] \<Rightarrow> [[x]]
            | l # ls \<Rightarrow> (x # l) # ls))"

text \<open>\<open>range(0, n, step)\<close> for a positive step, and the slice \<open>xs[i:j]\<close>.\<close>

definition py_range :: "nat \<Rightarrow> nat \<Rightarrow> nat list" where
  "py_range n step = map (\<lambda>j. j * step) [0..<(n + step - 1) div step]"

definition py_slice :: "'a list \<Rightarrow> nat \<Rightarrow> nat \<Rightarrow> 'a list" where
  "py_slice xs i j = take (j - i) (drop i xs)"

text \<open>The loop \<open>for i in range(0, len(xs), n): batch = xs[i:i + n]\<close>: the
  batches it goes through.\<close>

definition py_chunks :: "'a list \<Rightarrow> nat \<Rightarrow> 'a list list" where
  "py_chunks xs n = map (\<lambda>i. py_slice xs i (i + n)) (py_range (length xs) n)"

text \<open>\<open>str(n)\<close> for a non-negative integer.\<close>

definition digit_char :: "nat \<Rightarrow> char" where
  "digit_char d = ''0123456789'' ! d"

function py_str_nat :: "nat \<Rightarrow> string" where
  "py_str_nat n =
     (if n < 10 then [digit_char n]
      else py_str_nat (n div 10) @ [digit_char (n mod 10)])"
  by pat_completeness auto
termination
  by (relation "measure (\<lambda>n. n)") auto

subsection \<open>Configuration\<close>

text \<open>The module-level constants, read once from the process environment.
  \<open>BUCKET_MAPPING\<close> only supplies the default of \<open>BUCKET_NAME\<close>, and no function
  reads \<open>GRACE_PERIODS\<close>.\<close>

record config =
  ENVIRONMENT :: string
  BUCKET_NAME :: string
  DELETION_THRESHOLD :: int
  ACCOUNT_ID :: string

text \<open>The default of \<open>DELETION_THRESHOLD\<close> when the variable is not set.\<close>

definition DELETION_THRESHOLD_default :: int where
  "DELETION_THRESHOLD_default = 1000"

subsection \<open>The bucket and the services\<close>

text \<open>The request \<open>s3control.create_job\<close> receives.\<close>

record job_request =
  AccountId :: string
  ConfirmationRequired :: bool
  ManifestFormat :: string
  ManifestFields :: "string list"
  ManifestObjectArn :: string
  ManifestETag :: string
  Priority :: int
  ReportBucket :: string
  ReportPrefix :: string
  ReportScope :: string
  RoleArn :: string
  Tags :: "(string \<times> string) list"
  Description :: string

text \<open>What \<open>s3control.describe_job\<close> answers; a field the answer lacks is
  \<open>None\<close>. \<open>job_CreationTime\<close> holds the \<open>isoformat()\<close> of the datetime.\<close>

record progress_summary =
  TotalNumberOfTasks :: "int option"
  NumberOfTasksSucceeded :: "int option"
  NumberOfTasksFailed :: "int option"

record job_description =
  job_Status :: "string option"
  job_CreationTime :: "string option"
  job_Priority :: "int option"
  job_ProgressSummary :: "progress_summary option"

text \<open>
  How the services behave during one invocation. A fault is the message of the
  exception the request raises. \<open>list_fault p i\<close> is for fetching page \<open>i\<close> of the
  listing under prefix \<open>p\<close>; \<open>batch_fault\<close> fails a whole \<open>delete_objects\<close>
  request, \<open>key_fault\<close> puts one key of it under \<open>Errors\<close>. The library functions
  \<open>json.dumps\<close>, \<open>json.loads\<close> and \<open>datetime.fromisoformat\<close> (an instant and
  whether it carries a time zone) are parameters as well, and so is the clock.
\<close>

record services =
  list_fault :: "string \<Rightarrow> nat \<Rightarrow> string option"
  get_fault :: "string \<Rightarrow> string option"
  put_fault :: "string \<Rightarrow> string option"
  head_fault :: "string \<Rightarrow> string option"
  delete_fault :: "string \<Rightarrow> string option"
  batch_fault :: "string list \<Rightarrow> string option"
  key_fault :: "string \<Rightarrow> bool"
  etag_of :: "string \<Rightarrow> string"
  create_job_result :: "job_request \<Rightarrow> exn + string"
  describe_job_result :: "string \<Rightarrow> exn + job_description option"
  json_dumps :: "jval \<Rightarrow> string"
  json_loads :: "string \<Rightarrow> string + jval"
  fromisoformat :: "string \<Rightarrow> string + int \<times> bool"
  utcnow_stamp :: string
  utcnow_iso :: string
  now_utc :: int
  strftime_date :: "int \<Rightarrow> string"

text \<open>
  The bucket: its objects (key and body) in the order a listing returns them, and
  the requests that changed or tried to change it, in the order they were issued.
\<close>

record world =
  objects :: "(string \<times> string) list"
  delete_objects_calls :: "string list list"
  delete_object_calls :: "string list"
  create_job_calls :: "job_request list"

record delete_response =
  Deleted :: "string list"
  Errors :: "string list"

definition list_keys :: "world \<Rightarrow> string \<Rightarrow> string list" where
  "list_keys w p = filter (prefix p) (map fst (objects w))"

text \<open>The pages of \<open>paginator.paginate(Prefix=p)\<close>: at most 1000 keys each, one
  page without \<open>Contents\<close> when nothing matches; a page is fetched when the loop
  reaches it, and fetching may raise. The pages hold the keys that match when
  the listing starts: the handler deletes no key of a page it has not fetched
  yet, so what it deletes on the way does not change the pages that follow.\<close>

definition s3_pages :: "services \<Rightarrow> world \<Rightarrow> string \<Rightarrow> (exn + string list) list" where
  "s3_pages sv w p =
     (let ks = list_keys w p;
          contents = (if ks = [] then [[]]
                      else py_chunks ks 1000)
      in map (\<lambda>(i, c). case list_fault sv p i of
                          Some m \<Rightarrow> Inl (Exception m)
                        | None \<Rightarrow> Inr c)
             (enumerate 0 contents))"

text \<open>One \<open>list_objects_v2\<close> request: the first page only.\<close>

definition s3_list_objects_v2 :: "services \<Rightarrow> world \<Rightarrow> string \<Rightarrow> exn + string list" where
  "s3_list_objects_v2 sv w p =
     (case list_fault sv p 0 of
        Some m \<Rightarrow> Inl (Exception m)
      | None \<Rightarrow> Inr (take 1000 (list_keys w p)))"

definition s3_get_object :: "services \<Rightarrow> world \<Rightarrow> string \<Rightarrow> exn + string" where
  "s3_get_object sv w k =
     (case get_fault sv k of
        Some m \<Rightarrow> Inl (Exception m)
      | None \<Rightarrow> (case map_of (objects w) k of
                   None \<Rightarrow> Inl (Exception ''NoSuchKey'')
                 | Some body \<Rightarrow> Inr body))"

fun put_sorted :: "string \<Rightarrow> string \<Rightarrow> (string \<times> string) list \<Rightarrow> (string \<times> string) list" where
  "put_sorted k v [] = [(k, v)]"
| "put_sorted k v ((k', v') # rest) =
     (if k = k' then (k, v) # rest
      else if k < k' then (k, v) # (k', v') # rest
      else (k', v') # put_sorted k v rest)"

definition s3_put_object :: "services \<Rightarrow> world \<Rightarrow> string \<Rightarrow> string \<Rightarrow> (exn + unit) \<times> world" where
  "s3_put_object sv w k body =
     (case put_fault sv k of
        Some m \<Rightarrow> (Inl (Exception m), w)
      | None \<Rightarrow> (Inr (), w\<lparr>objects := put_sorted k body (objects w)\<rparr>))"

text \<open>\<open>head_object(...)['ETag']\<close>: the tag of the stored body, as the header
  carries it.\<close>

definition s3_head_object_etag :: "services \<Rightarrow> world \<Rightarrow> string \<Rightarrow> exn + string" where
  "s3_head_object_etag sv w k =
     (case head_fault sv k of
        Some m \<Rightarrow> Inl (Exception m)
      | None \<Rightarrow> (case map_of (objects w) k of
                   None \<Rightarrow> Inl (Exception ''NotFound'')
                 | Some body \<Rightarrow> Inr (etag_of sv body)))"

definition s3_delete_object :: "services \<Rightarrow> world \<Rightarrow> string \<Rightarrow> (exn + unit) \<times> world" where
  "s3_delete_object sv w k =
     (case delete_fault sv k of
        Some m \<Rightarrow> (Inl (Exception m), w\<lparr>delete_object_calls := delete_object_calls w @ [k]\<rparr>)
      | None \<Rightarrow>
          (Inr (), w\<lparr>objects := filter (\<lambda>(k', b). k' \<noteq> k) (objects w),
                     delete_object_calls := delete_object_calls w @ [k]\<rparr>))"

definition s3_delete_objects ::
  "services \<Rightarrow> world \<Rightarrow> string list \<Rightarrow> (exn + delete_response) \<times> world" where
  "s3_delete_objects sv w batch =
     (case batch_fault sv batch of
        Some m \<Rightarrow> (Inl (Exception m), w\<lparr>delete_objects_calls := delete_objects_calls w @ [batch]\<rparr>)
      | None \<Rightarrow>
          (let deleted = filter (\<lambda>k. \<not> key_fault sv k) batch
           in (Inr \<lparr>Deleted = deleted, Errors = filter (key_fault sv) batch\<rparr>,
               w\<lparr>objects := filter (\<lambda>(k', b). k' \<notin> set deleted) (objects w),
                 delete_objects_calls := delete_objects_calls w @ [batch]\<rparr>)))"

definition s3control_create_job ::
  "services \<Rightarrow> world \<Rightarrow> job_request \<Rightarrow> (exn + string) \<times> world" where
  "s3control_create_job sv w req =
     (create_job_result sv req, w\<lparr>create_job_calls := create_job_calls w @ [req]\<rparr>)"

subsection \<open>Inventory scanner: \<open>count_and_list_objects\<close>\<close>

type_synonym inventory = "(string \<times> string list) list"

definition user_prefixes :: "string \<Rightarrow> string list" where
  "user_prefixes user_id =
     [''photos/'' @ user_id @ ''/'',
      ''thumbnails/'' @ user_id @ ''/'',
      ''catalogs/'' @ user_id @ ''/'',
      ''users/'' @ user_id @ ''/'']"

text \<open>The loop over the pages of one prefix: every key of a page is appended
  and counted; a page that cannot be fetched raises out of the loop.\<close>

fun collect_keys :: "(exn + string list) list \<Rightarrow> nat \<times> string list \<Rightarrow> exn + nat \<times> string list" where
  "collect_keys [] acc = Inr acc"
| "collect_keys (Inl e # pages) acc = Inl e"
| "collect_keys (Inr contents # pages) (total_count, keys) =
     collect_keys pages (total_count + length contents, keys @ contents)"

text \<open>The loop over the prefixes; nothing catches an exception here.\<close>

fun scan_prefixes ::
  "services \<Rightarrow> world \<Rightarrow> string list \<Rightarrow> nat \<times> inventory \<Rightarrow> exn + nat \<times> inventory" where
  "scan_prefixes sv w [] acc = Inr acc"
| "scan_prefixes sv w (p # ps) (total_count, objects_by_prefix) =
     (case collect_keys (s3_pages sv w p) (total_count, []) of
        Inl e \<Rightarrow> Inl e
      | Inr (total_count', keys) \<Rightarrow>
          scan_prefixes sv w ps
            (total_count',
             if keys \<noteq> [] then AList.update p keys objects_by_prefix
             else objects_by_prefix))"

definition count_and_list_objects ::
  "services \<Rightarrow> string \<Rightarrow> world \<Rightarrow> exn + nat \<times> inventory" where
  "count_and_list_objects sv user_id w = scan_prefixes sv w (user_prefixes user_id) (0, [])"

subsection \<open>Direct deletion executor: \<open>perform_direct_deletion\<close>\<close>

text \<open>One batch: the request, and the \<open>try\<close>/\<open>except\<close> around it. Only the
  number of keys under \<open>Deleted\<close> is kept; \<open>Errors\<close> is logged.\<close>

definition delete_batch :: "services \<Rightarrow> string list \<Rightarrow> nat \<times> world \<Rightarrow> nat \<times> world" where
  "delete_batch sv batch acc =
     (case acc of (total_deleted, w) \<Rightarrow>
        (case s3_delete_objects sv w batch of
           (Inr response, w') \<Rightarrow> (total_deleted + length (Deleted response), w')
         | (Inl e, w') \<Rightarrow> (total_deleted, w')))"

definition perform_direct_deletion :: "services \<Rightarrow> inventory \<Rightarrow> world \<Rightarrow> nat \<times> world" where
  "perform_direct_deletion sv objects_by_prefix w =
     fold (\<lambda>(p, keys). fold (delete_batch sv) (py_chunks keys 1000)) objects_by_prefix (0, w)"

text \<open>The number of keys of one batch the store confirms as deleted: the length
  of \<open>Deleted\<close> in the answer, nothing when the request raises.\<close>

definition confirmed_deleted :: "services \<Rightarrow> string list \<Rightarrow> nat" where
  "confirmed_deleted sv batch =
     (case batch_fault sv batch of
        Some m \<Rightarrow> 0
      | None \<Rightarrow> length (filter (\<lambda>k. \<not> key_fault sv k) batch))"

subsection \<open>Bulk job builder: \<open>create_deletion_manifest\<close>, \<open>create_batch_operations_job\<close>\<close>

definition manifest_lines :: "config \<Rightarrow> inventory \<Rightarrow> string list" where
  "manifest_lines cfg objects_by_prefix =
     concat (map (\<lambda>(p, keys). map (\<lambda>key. BUCKET_NAME cfg @ '','' @ key) keys) objects_by_prefix)"

definition create_deletion_manifest :: "config \<Rightarrow> inventory \<Rightarrow> string" where
  "create_deletion_manifest cfg objects_by_prefix =
     py_join [CHR 0x0A] (manifest_lines cfg objects_by_prefix)"

definition manifest_key_of :: "services \<Rightarrow> string \<Rightarrow> string" where
  "manifest_key_of sv user_id =
     ''batch-jobs/manifests/'' @ utcnow_stamp sv @ ''/'' @ user_id @ ''-manifest.csv''"

definition report_prefix_of :: "services \<Rightarrow> string \<Rightarrow> string" where
  "report_prefix_of sv user_id = ''batch-jobs/reports/'' @ utcnow_stamp sv @ ''/'' @ user_id"

definition deletion_job_request :: "config \<Rightarrow> string \<Rightarrow> string \<Rightarrow> string \<Rightarrow> string \<Rightarrow> job_request" where
  "deletion_job_request cfg user_id manifest_key manifest_etag report_prefix =
     \<lparr>AccountId = ACCOUNT_ID cfg,
      ConfirmationRequired = False,
      ManifestFormat = ''S3BatchOperations_CSV_20180820'',
      ManifestFields = [''Bucket'', ''Key''],
      ManifestObjectArn = ''arn:aws:s3:::'' @ BUCKET_NAME cfg @ ''/'' @ manifest_key,
      ManifestETag = manifest_etag,
      Priority = 10,
      ReportBucket = ''arn:aws:s3:::'' @ BUCKET_NAME cfg,
      ReportPrefix = report_prefix,
      ReportScope = ''FailedTasksOnly'',
      RoleArn = ''arn:aws:iam::'' @ ACCOUNT_ID cfg @ '':role/S3BatchOperationsRole'',
      Tags = [(''UserId'', user_id), (''Type'', ''AccountDeletion''),
              (''Environment'', ENVIRONMENT cfg)],
      Description = ''Delete account data for user '' @ user_id\<rparr>"

text \<open>The uuid drawn first is overwritten by the job id of the answer and is
  left out. Each of the four requests may raise; nothing catches it here.\<close>

definition create_batch_operations_job ::
  "services \<Rightarrow> config \<Rightarrow> string \<Rightarrow> inventory \<Rightarrow> world \<Rightarrow> (exn + string) \<times> world" where
  "create_batch_operations_job sv cfg user_id objects_by_prefix w =
     (let manifest_key = manifest_key_of sv user_id;
          manifest_content = create_deletion_manifest cfg objects_by_prefix
      in case s3_put_object sv w manifest_key manifest_content of
           (Inl e, w1) \<Rightarrow> (Inl e, w1)
         | (Inr u, w1) \<Rightarrow>
            (case s3_head_object_etag sv w1 manifest_key of
               Inl e \<Rightarrow> (Inl e, w1)
             | Inr etag \<Rightarrow>
                (let manifest_etag = py_strip_chars (\<lambda>c. c = CHR 0x22) etag;
                     report_prefix = report_prefix_of sv user_id
                 in case s3control_create_job sv w1
                           (deletion_job_request cfg user_id manifest_key manifest_etag report_prefix) of
                      (Inl e, w2) \<Rightarrow> (Inl e, w2)
                    | (Inr job_id, w2) \<Rightarrow>
                       (let metadata = JObj
                              [(''jobId'', JStr job_id),
                               (''userId'', JStr user_id),
                               (''objectCount'',
                                  JInt (int (sum_list (map (\<lambda>(p, keys). length keys) objects_by_prefix)))),
                               (''createdAt'', JStr (utcnow_iso sv)),
                               (''manifestKey'', JStr manifest_key),
                               (''reportPrefix'', JStr report_prefix)]
                        in case s3_put_object sv w2
                                  (''batch-jobs/metadata/'' @ job_id @ ''.json'')
                                  (json_dumps sv metadata) of
                             (Inl e, w3) \<Rightarrow> (Inl e, w3)
                           | (Inr u', w3) \<Rightarrow> (Inr job_id, w3)))))"

subsection \<open>Job status tracker: \<open>get_batch_job_status\<close>\<close>

text \<open>The body of the \<open>try\<close>: a missing \<open>'Job'\<close> or \<open>'Status'\<close> is a
  \<open>KeyError\<close>, whose text is the quoted key.\<close>

definition job_status_body :: "services \<Rightarrow> string \<Rightarrow> exn + dict" where
  "job_status_body sv job_id =
     (case describe_job_result sv job_id of
        Inl e \<Rightarrow> Inl e
      | Inr None \<Rightarrow> Inl (Exception ([CHR 0x27] @ ''Job'' @ [CHR 0x27]))
      | Inr (Some job) \<Rightarrow>
         (case job_Status job of
            None \<Rightarrow> Inl (Exception ([CHR 0x27] @ ''Status'' @ [CHR 0x27]))
          | Some st \<Rightarrow>
             Inr [(''jobId'', JStr job_id),
                  (''status'', JStr st),
                  (''createdAt'', (case job_CreationTime job of None \<Rightarrow> JNull | Some t \<Rightarrow> JStr t)),
                  (''priority'', (case job_Priority job of None \<Rightarrow> JNull | Some p \<Rightarrow> JInt p)),
                  (''progressSummary'',
                     (case job_ProgressSummary job of
                        None \<Rightarrow> JObj []
                      | Some progress \<Rightarrow>
                          JObj [(''totalTasks'', JInt (case TotalNumberOfTasks progress of None \<Rightarrow> 0 | Some n \<Rightarrow> n)),
                                (''succeeded'', JInt (case NumberOfTasksSucceeded progress of None \<Rightarrow> 0 | Some n \<Rightarrow> n)),
                                (''failed'', JInt (case NumberOfTasksFailed progress of None \<Rightarrow> 0 | Some n \<Rightarrow> n))]))]))"

text \<open>The two handlers, in the order Python tries them.\<close>

definition get_batch_job_status :: "services \<Rightarrow> string \<Rightarrow> exn + dict" where
  "get_batch_job_status sv job_id =
     (case job_status_body sv job_id of
        Inr result \<Rightarrow> Inr result
      | Inl (NoSuchJob m) \<Rightarrow>
          Inr [(''jobId'', JStr job_id), (''status'', JStr ''NotFound''),
               (''error'', JStr ''Job not found'')]
      | Inl e \<Rightarrow>
          Inr [(''jobId'', JStr job_id), (''status'', JStr ''Error''),
               (''error'', JStr (str_exn e))])"

subsection \<open>Auxiliary record cleaner: \<open>remove_identity_mappings\<close>, \<open>remove_scheduled_deletion\<close>\<close>

text \<open>One record of the identity listing: the directory marker is skipped; the
  body is read, decoded and stripped; the record is deleted when it names the
  user. Whatever the read or the delete raises is caught and logged; the number
  of removed records is logged only.\<close>

definition identity_record :: "services \<Rightarrow> string \<Rightarrow> string \<Rightarrow> world \<Rightarrow> world" where
  "identity_record sv user_id key w =
     (if key = ''identities/'' then w
      else (case s3_get_object sv w key of
              Inl e \<Rightarrow> w
            | Inr body \<Rightarrow>
                if py_strip body = user_id then snd (s3_delete_object sv w key) else w))"

fun identity_pages :: "services \<Rightarrow> string \<Rightarrow> (exn + string list) list \<Rightarrow> world \<Rightarrow> (exn + unit) \<times> world" where
  "identity_pages sv user_id [] w = (Inr (), w)"
| "identity_pages sv user_id (Inl e # pages) w = (Inl e, w)"
| "identity_pages sv user_id (Inr contents # pages) w =
     identity_pages sv user_id pages (fold (identity_record sv user_id) contents w)"

definition remove_identity_mappings :: "services \<Rightarrow> string \<Rightarrow> world \<Rightarrow> (exn + unit) \<times> world" where
  "remove_identity_mappings sv user_id w =
     identity_pages sv user_id (s3_pages sv w ''identities/'') w"

text \<open>The records of one page of the scheduled-deletion listing: the first
  record whose key contains the user id and whose delete succeeds ends the whole
  function (\<open>True\<close>); a delete that raises is logged and the loop goes on.\<close>

fun scheduled_records :: "services \<Rightarrow> string \<Rightarrow> string list \<Rightarrow> world \<Rightarrow> bool \<times> world" where
  "scheduled_records sv user_id [] w = (False, w)"
| "scheduled_records sv user_id (key # keys) w =
     (if sublist user_id key
      then (case s3_delete_object sv w key of
              (Inr u, w') \<Rightarrow> (True, w')
            | (Inl e, w') \<Rightarrow> scheduled_records sv user_id keys w')
      else scheduled_records sv user_id keys w)"

fun scheduled_pages :: "services \<Rightarrow> string \<Rightarrow> (exn + string list) list \<Rightarrow> world \<Rightarrow> (exn + unit) \<times> world" where
  "scheduled_pages sv user_id [] w = (Inr (), w)"
| "scheduled_pages sv user_id (Inl e # pages) w = (Inl e, w)"
| "scheduled_pages sv user_id (Inr contents # pages) w =
     (case scheduled_records sv user_id contents w of
        (True, w') \<Rightarrow> (Inr (), w')
      | (False, w') \<Rightarrow> scheduled_pages sv user_id pages w')"

definition remove_scheduled_deletion :: "services \<Rightarrow> string \<Rightarrow> world \<Rightarrow> (exn + unit) \<times> world" where
  "remove_scheduled_deletion sv user_id w =
     scheduled_pages sv user_id (s3_pages sv w ''scheduled-deletions/'') w"

subsection \<open>The bucket after the cleaner has run\<close>






subsection \<open>Single-user deletion: \<open>delete_user_account\<close>\<close>

text \<open>The cleanup of the non-empty branch, inside its \<open>try\<close>: an exception of
  the first call skips the second and is logged.\<close>

definition cleanup_caught :: "services \<Rightarrow> string \<Rightarrow> world \<Rightarrow> world" where
  "cleanup_caught sv user_id w =
     (case remove_identity_mappings sv user_id w of
        (Inl e, w1) \<Rightarrow> w1
      | (Inr u, w1) \<Rightarrow> snd (remove_scheduled_deletion sv user_id w1))"

definition delete_user_account ::
  "services \<Rightarrow> config \<Rightarrow> string \<Rightarrow> world \<Rightarrow> (exn + dict) \<times> world" where
  "delete_user_account sv cfg user_id w =
     (case count_and_list_objects sv user_id w of
        Inl e \<Rightarrow> (Inl e, w)
      | Inr (object_count, objects_by_prefix) \<Rightarrow>
         if object_count = 0 then
           (case remove_identity_mappings sv user_id w of
              (Inl e, w1) \<Rightarrow> (Inl e, w1)
            | (Inr u, w1) \<Rightarrow>
               (case remove_scheduled_deletion sv user_id w1 of
                  (Inl e, w2) \<Rightarrow> (Inl e, w2)
                | (Inr u', w2) \<Rightarrow>
                   (Inr [(''status'', JStr ''completed''),
                         (''userId'', JStr user_id),
                         (''objectCount'', JInt 0),
                         (''method'', JStr ''none''),
                         (''message'', JStr ''No objects to delete'')], w2)))
         else
           (let w1 = cleanup_caught sv user_id w
            in if int object_count \<le> DELETION_THRESHOLD cfg then
                 (case perform_direct_deletion sv objects_by_prefix w1 of
                    (deleted_count, w2) \<Rightarrow>
                      (Inr [(''status'', JStr ''completed''),
                            (''userId'', JStr user_id),
                            (''objectCount'', JInt (int object_count)),
                            (''deletedCount'', JInt (int deleted_count)),
                            (''method'', JStr ''direct''),
                            (''message'', JStr ''Account deleted successfully'')], w2))
               else
                 (case create_batch_operations_job sv cfg user_id objects_by_prefix w1 of
                    (Inl e, w2) \<Rightarrow> (Inl e, w2)
                  | (Inr job_id, w2) \<Rightarrow>
                      (Inr [(''status'', JStr ''batch_job_created''),
                            (''userId'', JStr user_id),
                            (''jobId'', JStr job_id),
                            (''objectCount'', JInt (int object_count)),
                            (''method'', JStr ''batch''),
                            (''message'', JStr (''Batch job '' @ job_id @ '' created for ''
                                                 @ py_str_nat object_count @ '' objects''))], w2))))"

subsection \<open>Scheduled deletion sweeper: \<open>process_scheduled_deletions\<close>\<close>

text \<open>\<open>deletion_data['deleteOn']\<close>: a missing key is a \<open>KeyError\<close>, a value
  that is no object a \<open>TypeError\<close>.\<close>

definition subscript_deleteOn :: "jval \<Rightarrow> exn + jval" where
  "subscript_deleteOn deletion_data =
     (case deletion_data of
        JObj d \<Rightarrow> (case map_of d ''deleteOn'' of
                     None \<Rightarrow> Inl (Exception ([CHR 0x27] @ ''deleteOn'' @ [CHR 0x27]))
                   | Some v \<Rightarrow> Inr v)
      | _ \<Rightarrow> Inl (Exception ''TypeError''))"

text \<open>Reading when the entry is due: the body is fetched and parsed, \<open>'Z'\<close> is
  replaced and the timestamp parsed. A timestamp without time zone cannot be
  compared with the time-zone-aware \<open>now\<close>: a \<open>TypeError\<close>. The messages of the
  \<open>TypeError\<close> and \<open>AttributeError\<close> of a malformed entry are shortened to the
  name of the error.\<close>

definition read_delete_on :: "services \<Rightarrow> world \<Rightarrow> string \<Rightarrow> exn + int" where
  "read_delete_on sv w key =
     (case s3_get_object sv w key of
        Inl e \<Rightarrow> Inl e
      | Inr body \<Rightarrow>
         (case json_loads sv body of
            Inl m \<Rightarrow> Inl (Exception m)
          | Inr deletion_data \<Rightarrow>
             (case subscript_deleteOn deletion_data of
                Inl e \<Rightarrow> Inl e
              | Inr (JStr s) \<Rightarrow>
                 (case fromisoformat sv (py_replace ''Z'' ''+00:00'' s) of
                    Inl m \<Rightarrow> Inl (Exception m)
                  | Inr (t, aware) \<Rightarrow>
                      if aware then Inr t
                      else Inl (Exception ''can't compare offset-naive and offset-aware datetimes''))
              | Inr v \<Rightarrow> Inl (Exception ''AttributeError''))))"

text \<open>One listed entry, with the \<open>try\<close>/\<open>except\<close> around it: a due entry is
  deleted and its outcome recorded, one not yet due is passed over, an exception
  is recorded as an error outcome.\<close>

definition sweep_entry ::
  "services \<Rightarrow> config \<Rightarrow> string \<Rightarrow> dict list \<times> world \<Rightarrow> dict list \<times> world" where
  "sweep_entry sv cfg key acc =
     (case acc of (results, w) \<Rightarrow>
       (let filename = py_last_segment key;
            user_id = py_replace ''.json'' [] filename;
            failed = (\<lambda>e. [(''userId'', JStr user_id), (''status'', JStr ''error''),
                           (''error'', JStr (str_exn e))])
        in case read_delete_on sv w key of
             Inl e \<Rightarrow> (results @ [failed e], w)
           | Inr delete_on \<Rightarrow>
               if delete_on \<le> now_utc sv then
                 (case delete_user_account sv cfg user_id w of
                    (Inl e, w') \<Rightarrow> (results @ [failed e], w')
                  | (Inr result, w') \<Rightarrow>
                      (results @ [dict_merge [(''userId'', JStr user_id)] result], w'))
               else (results, w)))"

definition process_scheduled_deletions :: "services \<Rightarrow> config \<Rightarrow> world \<Rightarrow> (exn + dict) \<times> world" where
  "process_scheduled_deletions sv cfg w =
     (let date_key = strftime_date sv (now_utc sv);
          p = ''scheduled-deletions/'' @ date_key @ ''/''
      in case s3_list_objects_v2 sv w p of
           Inl e \<Rightarrow> (Inr [(''processed'', JInt 0), (''error'', JStr (str_exn e))], w)
         | Inr contents \<Rightarrow>
             if contents = [] then
               (Inr [(''processed'', JInt 0),
                     (''message'', JStr ''No scheduled deletions for today'')], w)
             else
               (case fold (sweep_entry sv cfg) contents ([], w) of
                  (results, w') \<Rightarrow>
                    (Inr [(''processed'', JInt (int (length results))),
                          (''results'', JArr (map JObj results))], w')))"

subsection \<open>Entry point: \<open>handler\<close>\<close>

text \<open>The event is a JSON object whose fields are strings; a field it lacks is
  \<open>None\<close>. The body of a response is the text \<open>json.dumps\<close> produces.\<close>

record response =
  statusCode :: int
  body :: string

definition error_response :: "services \<Rightarrow> int \<Rightarrow> string \<Rightarrow> response" where
  "error_response sv code msg =
     \<lparr>statusCode = code, body = json_dumps sv (JObj [(''error'', JStr msg)])\<rparr>"

text \<open>The end of the \<open>try\<close>: a result is answered with 200, an exception that
  reached the handler with 500.\<close>

definition respond :: "services \<Rightarrow> (exn + dict) \<times> world \<Rightarrow> response \<times> world" where
  "respond sv r =
     (case r of
        (Inr result, w') \<Rightarrow> (\<lparr>statusCode = 200, body = json_dumps sv (JObj result)\<rparr>, w')
      | (Inl e, w') \<Rightarrow> (error_response sv 500 (str_exn e), w'))"

definition handler ::
  "services \<Rightarrow> config \<Rightarrow> (string \<rightharpoonup> string) \<Rightarrow> world \<Rightarrow> response \<times> world" where
  "handler sv cfg event w =
     (let action = (case event ''type'' of None \<Rightarrow> ''scheduled'' | Some a \<Rightarrow> a)
      in if action = ''immediate'' then
           (if ENVIRONMENT cfg \<noteq> ''development'' then
              (error_response sv 403 ''Immediate deletion only allowed in development'', w)
            else
              (case event ''userId'' of
                 None \<Rightarrow> (error_response sv 400 ''userId required'', w)
               | Some user_id \<Rightarrow>
                   if user_id = [] then (error_response sv 400 ''userId required'', w)
                   else respond sv (delete_user_account sv cfg user_id w)))
         else if action = ''scheduled'' then
           respond sv (process_scheduled_deletions sv cfg w)
         else if action = ''status'' then
           (case event ''jobId'' of
              None \<Rightarrow> (error_response sv 400 ''jobId required'', w)
            | Some job_id \<Rightarrow>
                if job_id = [] then (error_response sv 400 ''jobId required'', w)
                else respond sv (get_batch_job_status sv job_id, w))
         else (error_response sv 400 (''Unknown action: '' @ action), w))"

subsection \<open>Example configurations, services and buckets\<close>

text \<open>Services that answer every request: no faults, a quoted tag, one job id.\<close>

definition services_ok :: services where
  "services_ok =
     \<lparr>list_fault = (\<lambda>p i. None),
      get_fault = (\<lambda>k. None),
      put_fault = (\<lambda>k. None),
      head_fault = (\<lambda>k. None),
      delete_fault = (\<lambda>k. None),
      batch_fault = (\<lambda>b. None),
      key_fault = (\<lambda>k. False),
      etag_of = (\<lambda>b. [CHR 0x22] @ ''tag-'' @ b @ [CHR 0x22]),
      create_job_result = (\<lambda>r. Inr ''job-1''),
      describe_job_result = (\<lambda>j. Inl (NoSuchJob ''no such job'')),
      json_dumps = (\<lambda>v. ''json''),
      json_loads = (\<lambda>s. Inl ''JSONDecodeError''),
      fromisoformat = (\<lambda>s. Inl ''ValueError''),
      utcnow_stamp = ''20240101-000000'',
      utcnow_iso = ''2024-01-01T00:00:00'',
      now_utc = 0,
      strftime_date = (\<lambda>t. ''2024-01-01'')\<rparr>"

definition config_production :: config where
  "config_production =
     \<lparr>ENVIRONMENT = ''production'', BUCKET_NAME = ''photolala-prod'',
      DELETION_THRESHOLD = DELETION_THRESHOLD_default, ACCOUNT_ID = ''123456789012''\<rparr>"

definition config_development :: config where
  "config_development =
     \<lparr>ENVIRONMENT = ''development'', BUCKET_NAME = ''photolala-dev'',
      DELETION_THRESHOLD = DELETION_THRESHOLD_default, ACCOUNT_ID = ''123456789012''\<rparr>"

definition world_small :: world where
  "world_small =
     \<lparr>objects = [(''identities/apple:x1'', ''u1''), (''photos/u1/a.jpg'', ''A'')],
      delete_objects_calls = [], delete_object_calls = [], create_job_calls = []\<rparr>"

text \<open>Listing the thumbnails of user \<open>u1\<close> fails; everything else answers.\<close>

definition services_thumbnails_fault :: services where
  "services_thumbnails_fault =
     services_ok\<lparr>list_fault := (\<lambda>p i. if p = ''thumbnails/u1/'' then Some ''SlowDown'' else None)\<rparr>"

text \<open>A bucket that holds \<open>n\<close> photos of user \<open>u1\<close> and nothing else; the keys
  are in ascending order.\<close>

definition photo_key :: "nat \<Rightarrow> string" where
  "photo_key i = ''photos/u1/'' @ replicate (Suc i) (CHR ''a'')"

definition world_photos :: "nat \<Rightarrow> world" where
  "world_photos n =
     \<lparr>objects = map (\<lambda>i. (photo_key i, ''jpeg'')) [0..<n],
      delete_objects_calls = [], delete_object_calls = [], create_job_calls = []\<rparr>"

text \<open>Two photos of user \<open>u1\<close>.\<close>

definition world_two :: world where
  "world_two =
     \<lparr>objects = [(''photos/u1/a.jpg'', ''A''), (''photos/u1/b.jpg'', ''B'')],
      delete_objects_calls = [], delete_object_calls = [], create_job_calls = []\<rparr>"

text \<open>Every \<open>delete_objects\<close> request of 500 keys times out.\<close>

definition services_second_batch_fault :: services where
  "services_second_batch_fault =
     services_ok\<lparr>batch_fault := (\<lambda>b. if length b = 500 then Some ''RequestTimeout'' else None)\<rparr>"

text \<open>The store reports one key of a \<open>delete_objects\<close> request under \<open>Errors\<close>.\<close>

definition services_key_fault :: services where
  "services_key_fault = services_ok\<lparr>key_fault := (\<lambda>k. k = ''photos/u1/b.jpg'')\<rparr>"

text \<open>One photo of user \<open>u1\<close> whose key contains a comma.\<close>

definition world_comma_key :: world where
  "world_comma_key =
     \<lparr>objects = [(''photos/u1/a,b.jpg'', ''A'')],
      delete_objects_calls = [], delete_object_calls = [], create_job_calls = []\<rparr>"




text \<open>The body of a scheduled-deletion entry that is due at \<open>t\<close>.\<close>

definition entry_body :: "string \<Rightarrow> string" where
  \<open>entry_body t = ''{"deleteOn": "'' @ t @ ''"}''\<close>

text \<open>A sweep at noon (UTC) of 1 January 2024: the clock, and the two library
  parsers on the entries that are due at 11:00 and at 13:00.\<close>

definition services_sweep :: services where
  "services_sweep =
     services_ok
       \<lparr>json_loads := (\<lambda>s.
          if s = entry_body ''2024-01-01T11:00:00Z''
          then Inr (JObj [(''deleteOn'', JStr ''2024-01-01T11:00:00Z'')])
          else if s = entry_body ''2024-01-01T13:00:00Z''
          then Inr (JObj [(''deleteOn'', JStr ''2024-01-01T13:00:00Z'')])
          else Inl ''JSONDecodeError''),
        fromisoformat := (\<lambda>s.
          if s = ''2024-01-01T11:00:00+00:00'' then Inr (1704106800, True)
          else if s = ''2024-01-01T13:00:00+00:00'' then Inr (1704114000, True)
          else Inl ''Invalid isoformat string''),
        now_utc := 1704110400,
        strftime_date := (\<lambda>t. if 1704067200 \<le> t \<and> t < 1704153600 then ''2024-01-01''
                              else ''another day'')\<rparr>"

text \<open>Today's bucket with an entry that is due (\<open>u1\<close>) and one that is not
  (\<open>u2\<close>).\<close>

definition world_sweep :: world where
  "world_sweep =
     \<lparr>objects =
        [(''scheduled-deletions/2024-01-01/u1.json'', entry_body ''2024-01-01T11:00:00Z''),
         (''scheduled-deletions/2024-01-01/u2.json'', entry_body ''2024-01-01T13:00:00Z'')],
      delete_objects_calls = [], delete_object_calls = [], create_job_calls = []\<rparr>"

text \<open>Today's bucket with the entry of user \<open>ab\<close>, not yet due, and the entry of
  user \<open>b\<close>, due.\<close>

definition world_sweep_collision :: world where
  "world_sweep_collision =
     \<lparr>objects =
        [(''scheduled-deletions/2024-01-01/ab.json'', entry_body ''2024-01-01T13:00:00Z''),
         (''scheduled-deletions/2024-01-01/b.json'', entry_body ''2024-01-01T11:00:00Z'')],
      delete_objects_calls = [], delete_object_calls = [], create_job_calls = []\<rparr>"

section \<open>Properties\<close>

subsection \<open>Batches of a list\<close>

text \<open>For a positive size the batches of the slicing loop are the list cut into
  consecutive pieces: the first \<open>n\<close> elements, then the batches of the rest.\<close>

lemma py_range_unfold:
  assumes "0 < n" "0 < len"
  shows "py_range len n = 0 # map (\<lambda>i. i + n) (py_range (len - n) n)"
proof -
  have e: "len + n - 1 = (len - 1) + n" using assms by simp
  have A: "(len + n - 1) div n = (len - 1) div n + 1"
    unfolding e using assms(1) by (simp only: div_add_self2 less_numeral_extra(3) neq0_conv)
  have B: "(len - n + n - 1) div n = (len - 1) div n"
  proof (cases "len \<le> n")
    case True
    have "n - 1 < n" using assms by simp
    then have "(n - 1) div n = 0" by (rule div_less)
    moreover have "len - 1 < n" using True assms by simp
    then have "(len - 1) div n = 0" by (rule div_less)
    moreover have "len - n + n - 1 = n - 1" using True by simp
    ultimately show ?thesis by (simp only:)
  next
    case False
    then have "len - n + n - 1 = len - 1" by simp
    then show ?thesis by (simp only:)
  qed
  have m: "(len + n - 1) div n = Suc ((len - n + n - 1) div n)"
    unfolding A B by simp
  have u: "[0..<Suc k] = 0 # map Suc [0..<k]" for k
    by (simp only: map_Suc_upt upt_conv_Cons [of 0 "Suc k"] zero_less_Suc)
  show ?thesis
    unfolding py_range_def m u
    by (simp add: o_def)
qed

lemma py_range_0: "py_range 0 n = []"
proof (cases "n = 0")
  case True
  then show ?thesis by (simp add: py_range_def)
next
  case False
  then have "n - 1 < n" by simp
  then have "(n - 1) div n = 0" by (rule div_less)
  then show ?thesis by (simp add: py_range_def)
qed

lemma py_chunks_Nil [simp]: "py_chunks [] n = []"
  by (simp add: py_chunks_def py_range_0)

lemma py_chunks_unfold:
  assumes "0 < n" "xs \<noteq> []"
  shows "py_chunks xs n = take n xs # py_chunks (drop n xs) n"
  using assms
  by (simp add: py_chunks_def py_range_unfold py_slice_def o_def add.commute)

lemma concat_py_chunks: "0 < n \<Longrightarrow> concat (py_chunks xs n) = xs"
proof (induction "length xs" arbitrary: xs rule: less_induct)
  case less
  show ?case
  proof (cases "xs = []")
    case True
    then show ?thesis by simp
  next
    case False
    with less.prems have "length (drop n xs) < length xs" by simp
    then show ?thesis
      using less.hyps less.prems False by (simp add: py_chunks_unfold)
  qed
qed

lemma py_chunks_bound:
  "0 < n \<Longrightarrow> b \<in> set (py_chunks xs n) \<Longrightarrow> b \<noteq> [] \<and> length b \<le> n"
proof (induction "length xs" arbitrary: xs rule: less_induct)
  case less
  show ?case
  proof (cases "xs = []")
    case True
    with less.prems show ?thesis by simp
  next
    case False
    with less.prems have "length (drop n xs) < length xs" by simp
    then show ?thesis
      using less.hyps [of "drop n xs"] less.prems False by (auto simp: py_chunks_unfold)
  qed
qed

subsection \<open>Entry point\<close>

text \<open>
  C10. An \<open>immediate\<close> event outside the development environment is answered
  with status 403 and the message that immediate deletion is only allowed in
  development, whatever the services would answer and whatever the event names
  as user; the bucket and the record of issued requests are as before, so nothing
  was deleted or cleaned up for any user.
\<close>

theorem handler_immediate_outside_development:
  "event ''type'' = Some ''immediate'' \<Longrightarrow> ENVIRONMENT cfg \<noteq> ''development'' \<Longrightarrow>
     handler sv cfg event w =
       (\<lparr>statusCode = 403,
         body = json_dumps sv
                  (JObj [(''error'', JStr ''Immediate deletion only allowed in development'')])\<rparr>,
        w)"
  by (simp add: handler_def error_response_def)

theorem handler_immediate_outside_development_witness:
  "handler services_ok config_production
       [''type'' \<mapsto> ''immediate'', ''userId'' \<mapsto> ''u1''] world_small =
       (\<lparr>statusCode = 403,
         body = json_dumps services_ok
                  (JObj [(''error'', JStr ''Immediate deletion only allowed in development'')])\<rparr>,
        world_small)"
  using handler_immediate_outside_development
          [of "[''type'' \<mapsto> ''immediate'', ''userId'' \<mapsto> ''u1'']"
              config_production services_ok world_small]
  by (simp add: config_production_def)

text \<open>In the development environment the same event reaches the single-user
  deletion.\<close>

lemma handler_immediate_development:
  "event ''type'' = Some ''immediate'' \<Longrightarrow> ENVIRONMENT cfg = ''development'' \<Longrightarrow>
   event ''userId'' = Some user_id \<Longrightarrow> user_id \<noteq> [] \<Longrightarrow>
     handler sv cfg event w = respond sv (delete_user_account sv cfg user_id w)"
  by (simp add: handler_def)

subsection \<open>Job status tracker\<close>



subsection \<open>Inventory scanner\<close>

text \<open>Without listing faults the pages of a prefix are the batches of its keys,
  and the page loop returns all of them.\<close>

lemma map_enumerate_Inr:
  "(\<And>i. f i = None) \<Longrightarrow>
   map (\<lambda>(i, c). case f i of Some m \<Rightarrow> Inl (Exception m) | None \<Rightarrow> Inr c) (enumerate n cs) = map Inr cs"
  by (induction cs arbitrary: n) simp_all

lemma s3_pages_no_fault:
  assumes "\<And>i. list_fault sv p i = None"
  shows "s3_pages sv w p =
           map Inr (if list_keys w p = [] then [[]] else py_chunks (list_keys w p) 1000)"
  unfolding s3_pages_def Let_def
  by (rule map_enumerate_Inr) (rule assms)

lemma collect_keys_Inr:
  "collect_keys (map Inr cs) (t, ks) = Inr (t + length (concat cs), ks @ concat cs)"
  by (induction cs arbitrary: t ks) simp_all

lemma collect_keys_no_fault:
  assumes "\<And>i. list_fault sv p i = None"
  shows "collect_keys (s3_pages sv w p) (t, []) = Inr (t + length (list_keys w p), list_keys w p)"
  by (simp add: s3_pages_no_fault [OF assms] collect_keys_Inr concat_py_chunks)

lemma collect_keys_fault:
  "i < length pages \<Longrightarrow> pages ! i = Inl e \<Longrightarrow> \<exists>e'. collect_keys pages acc = Inl e'"
proof (induction pages acc arbitrary: i rule: collect_keys.induct)
  case (1 acc)
  then show ?case by simp
next
  case (2 e pages acc)
  then show ?case by simp
next
  case (3 contents pages total_count keys)
  then show ?case by (cases i) auto
qed

lemma s3_pages_nth_fault:
  "i < length (s3_pages sv w p) \<Longrightarrow> list_fault sv p i = Some m \<Longrightarrow>
   s3_pages sv w p ! i = Inl (Exception m)"
  by (simp add: s3_pages_def Let_def nth_enumerate_eq)

lemma scan_prefixes_fault:
  "p \<in> set ps \<Longrightarrow> (\<And>acc. \<exists>e. collect_keys (s3_pages sv w p) acc = Inl e) \<Longrightarrow>
   \<exists>e. scan_prefixes sv w ps acc = Inl e"
proof (induction ps arbitrary: acc)
  case Nil
  then show ?case by simp
next
  case (Cons q ps)
  obtain t obp where acc: "acc = (t, obp)" by (cases acc)
  show ?case
  proof (cases "collect_keys (s3_pages sv w q) (t, [])")
    case (Inl e)
    then show ?thesis by (simp add: acc)
  next
    case (Inr r)
    with Cons.prems have "p \<noteq> q" by (metis Inl_Inr_False)
    with Cons.prems have "p \<in> set ps" by simp
    from Cons.IH [OF this Cons.prems(2)] Inr show ?thesis
      by (simp add: acc split: prod.splits)
  qed
qed

text \<open>
  C5 (as the code has it). When fetching any page of any of the four prefixes
  fails, the scanner returns neither a count nor an inventory: the exception
  leaves \<open>count_and_list_objects\<close>, whatever was counted for earlier prefixes is
  dropped with it, and the single-user deletion ends with that exception before
  it has changed anything.
\<close>

theorem count_and_list_objects_listing_error:
  assumes "p \<in> set (user_prefixes user_id)"
    and "i < length (s3_pages sv w p)"
    and "list_fault sv p i = Some m"
  shows "\<exists>e. count_and_list_objects sv user_id w = Inl e \<and>
             delete_user_account sv cfg user_id w = (Inl e, w)"
proof -
  have "\<exists>e. collect_keys (s3_pages sv w p) acc = Inl e" for acc
    using collect_keys_fault [OF assms(2) s3_pages_nth_fault [OF assms(2,3)]] by blast
  then obtain e where "count_and_list_objects sv user_id w = Inl e"
    unfolding count_and_list_objects_def
    using scan_prefixes_fault [OF assms(1)] by blast
  then show ?thesis by (simp add: delete_user_account_def)
qed

theorem count_and_list_objects_listing_error_witness:
  "\<exists>e. count_and_list_objects services_thumbnails_fault ''u1'' world_small = Inl e \<and>
       delete_user_account services_thumbnails_fault config_development ''u1'' world_small =
         (Inl e, world_small)"
  using count_and_list_objects_listing_error
          [of "''thumbnails/u1/''" "''u1''" 0 services_thumbnails_fault world_small "''SlowDown''"
              config_development]
  by (simp add: user_prefixes_def services_thumbnails_fault_def s3_pages_def list_keys_def
        world_small_def)

text \<open>The claim as worded fails: one object was counted under \<open>photos/u1/\<close>
  before the listing of \<open>thumbnails/u1/\<close> failed, and the scanner returns the
  exception alone, no result that carries the count 1.\<close>

theorem count_and_list_objects_partial_counts_counterexample:
  "collect_keys (s3_pages services_thumbnails_fault world_small ''photos/u1/'') (0, []) =
     Inr (1, [''photos/u1/a.jpg'']) \<and>
   count_and_list_objects services_thumbnails_fault ''u1'' world_small =
     Inl (Exception ''SlowDown'') \<and>
   \<not> (\<exists>inventory. count_and_list_objects services_thumbnails_fault ''u1'' world_small =
          Inr (1, inventory))"
proof -
  have a: "collect_keys (s3_pages services_thumbnails_fault world_small ''photos/u1/'') (0, []) =
             Inr (1, [''photos/u1/a.jpg''])"
    by code_simp
  have b: "count_and_list_objects services_thumbnails_fault ''u1'' world_small =
             Inl (Exception ''SlowDown'')"
    by code_simp
  show ?thesis using a b by simp
qed

subsection \<open>What the requests of each function leave untouched\<close>












lemma fold_delete_batch_calls:
  "delete_objects_calls (snd (fold (delete_batch sv) bs (t, w))) = delete_objects_calls w @ bs \<and>
   create_job_calls (snd (fold (delete_batch sv) bs (t, w))) = create_job_calls w"
proof (induction bs arbitrary: t w)
  case Nil
  then show ?case by simp
next
  case (Cons b bs)
  obtain t' w' where s: "delete_batch sv b (t, w) = (t', w')" by (cases "delete_batch sv b (t, w)")
  then have "delete_objects_calls w' = delete_objects_calls w @ [b] \<and> create_job_calls w' = create_job_calls w"
    by (auto simp: delete_batch_def s3_delete_objects_def Let_def split: option.splits)
  then show ?case using Cons [of t' w'] s by simp
qed

lemma perform_direct_deletion_fold:
  "fold (\<lambda>(p, keys). fold (delete_batch sv) (py_chunks keys 1000)) obp acc =
   fold (delete_batch sv) (concat (map (\<lambda>(p, keys). py_chunks keys 1000) obp)) acc"
  by (induction obp arbitrary: acc) (simp_all split: prod.splits)

lemma perform_direct_deletion_calls:
  "delete_objects_calls (snd (perform_direct_deletion sv obp w)) =
     delete_objects_calls w @ concat (map (\<lambda>(p, keys). py_chunks keys 1000) obp) \<and>
   create_job_calls (snd (perform_direct_deletion sv obp w)) = create_job_calls w"
  by (simp add: perform_direct_deletion_def perform_direct_deletion_fold fold_delete_batch_calls)

subsection \<open>Scanning without listing faults\<close>

lemma count_and_list_objects_no_fault:
  assumes "\<And>p i. list_fault sv p i = None"
  shows "count_and_list_objects sv u w =
           Inr (length (concat (map (list_keys w) (user_prefixes u))),
                filter (\<lambda>(p, ks). ks \<noteq> []) (map (\<lambda>p. (p, list_keys w p)) (user_prefixes u)))"
  by (simp add: count_and_list_objects_def user_prefixes_def collect_keys_no_fault [OF assms])

lemma list_keys_world_photos:
  "list_keys (world_photos n) ''photos/u1/'' = map photo_key [0..<n]"
  "list_keys (world_photos n) ''thumbnails/u1/'' = []"
  "list_keys (world_photos n) ''catalogs/u1/'' = []"
  "list_keys (world_photos n) ''users/u1/'' = []"
  by (simp_all add: list_keys_def world_photos_def photo_key_def o_def filter_map)

lemma scan_world_photos:
  assumes "\<And>p i. list_fault sv p i = None" "0 < n"
  shows "count_and_list_objects sv ''u1'' (world_photos n) =
     Inr (n, [(''photos/u1/'', map photo_key [0..<n])])"
  using assms(2)
  by (simp add: count_and_list_objects_no_fault [OF assms(1)]
        user_prefixes_def list_keys_world_photos)

subsection \<open>The bulk job builder returns when its requests succeed\<close>

lemma map_of_put_sorted: "map_of (put_sorted k v xs) k = Some v"
  by (induction xs) auto




subsection \<open>Deletion strategy\<close>



subsection \<open>Direct deletion executor\<close>

lemma concat_inventory_batches:
  "concat (concat (map (\<lambda>(p, keys). py_chunks keys 1000) obp)) = concat (map snd obp)"
  by (induction obp) (auto simp: concat_py_chunks)

text \<open>
  C2. For every inventory the direct executor appends to the issued
  \<open>delete_objects\<close> requests a sequence of batches, each non-empty and of at most
  1000 keys, and the keys of these batches read in order are exactly the keys of
  the inventory read in order: every entry of the inventory is sent once, none is
  skipped and none is sent twice.
\<close>

theorem perform_direct_deletion_batches:
  "\<exists>batches.
     delete_objects_calls (snd (perform_direct_deletion sv obp w)) = delete_objects_calls w @ batches \<and>
     (\<forall>b \<in> set batches. b \<noteq> [] \<and> length b \<le> 1000) \<and>
     concat batches = concat (map snd obp)"
proof (intro exI conjI)
  show "delete_objects_calls (snd (perform_direct_deletion sv obp w)) =
          delete_objects_calls w @ concat (map (\<lambda>(p, keys). py_chunks keys 1000) obp)"
    by (simp add: perform_direct_deletion_calls)
  show "\<forall>b \<in> set (concat (map (\<lambda>(p, keys). py_chunks keys 1000) obp)). b \<noteq> [] \<and> length b \<le> 1000"
    using py_chunks_bound [of 1000] by fastforce
  show "concat (concat (map (\<lambda>(p, keys). py_chunks keys 1000) obp)) = concat (map snd obp)"
    by (rule concat_inventory_batches)
qed

theorem perform_direct_deletion_batches_witness:
  "delete_objects_calls
     (snd (perform_direct_deletion services_ok
             [(''photos/u1/'', [''photos/u1/a.jpg'', ''photos/u1/b.jpg'']),
              (''users/u1/'', [''users/u1/profile.json''])] world_two)) =
     [[''photos/u1/a.jpg'', ''photos/u1/b.jpg''], [''users/u1/profile.json'']]"
proof -
  have e: "delete_objects_calls
     (snd (perform_direct_deletion services_ok
             [(''photos/u1/'', [''photos/u1/a.jpg'', ''photos/u1/b.jpg'']),
              (''users/u1/'', [''users/u1/profile.json''])] world_two)) =
     [[''photos/u1/a.jpg'', ''photos/u1/b.jpg''], [''users/u1/profile.json'']]"
    by code_simp
  show ?thesis
    using perform_direct_deletion_batches
            [of services_ok "[(''photos/u1/'', [''photos/u1/a.jpg'', ''photos/u1/b.jpg'']),
              (''users/u1/'', [''users/u1/profile.json''])]" world_two] e
    by simp
qed

text \<open>The executor returns one number: the keys the store confirmed, summed over
  the batches.\<close>

lemma fold_delete_batch_count:
  "fst (fold (delete_batch sv) bs (t, w)) = t + sum_list (map (confirmed_deleted sv) bs)"
proof (induction bs arbitrary: t w)
  case Nil
  then show ?case by simp
next
  case (Cons b bs)
  obtain t' w' where s: "delete_batch sv b (t, w) = (t', w')" by (cases "delete_batch sv b (t, w)")
  then have "t' = t + confirmed_deleted sv b"
    by (auto simp: delete_batch_def s3_delete_objects_def confirmed_deleted_def Let_def
             split: option.splits)
  then show ?case using Cons [of t' w'] s by simp
qed

lemma perform_direct_deletion_count:
  "fst (perform_direct_deletion sv obp w) =
     sum_list (map (confirmed_deleted sv) (concat (map (\<lambda>(p, keys). py_chunks keys 1000) obp)))"
  by (simp add: perform_direct_deletion_def perform_direct_deletion_fold fold_delete_batch_count)

lemma py_chunks_1500:
  assumes "length keys = 1500"
  shows "py_chunks keys 1000 = [take 1000 keys, drop 1000 keys]"
proof -
  have a: "keys \<noteq> []" using assms by auto
  have b: "drop 1000 keys \<noteq> []" using assms by auto
  have c: "py_chunks (drop 1000 (drop 1000 keys)) 1000 = []" using assms by simp
  have d: "take 1000 (drop 1000 keys) = drop 1000 keys" using assms by simp
  have "py_chunks keys 1000 = take 1000 keys # py_chunks (drop 1000 keys) 1000"
    by (rule py_chunks_unfold) (simp, rule a)
  also have "py_chunks (drop 1000 keys) 1000 =
               take 1000 (drop 1000 keys) # py_chunks (drop 1000 (drop 1000 keys)) 1000"
    by (rule py_chunks_unfold) (simp, rule b)
  finally show ?thesis by (simp only: c d)
qed

text \<open>
  C4 (as the code has it). The direct executor returns the total of confirmed
  keys and nothing else. For 1500 keys under one prefix, when the first batch of
  1000 is confirmed in full and the second batch of 500 fails entirely (the
  request raises, or the store reports every key under \<open>Errors\<close>), it returns
  1000; and when the scanner found this inventory and the threshold admits 1500
  objects to the direct path, the single-user outcome is \<open>completed\<close> with method
  \<open>direct\<close>, \<open>objectCount\<close> 1500 and \<open>deletedCount\<close> 1000, and has no other field.
\<close>

theorem direct_deletion_second_batch_fails:
  assumes "length keys = 1500"
    and "batch_fault sv (take 1000 keys) = None"
    and "\<forall>k \<in> set (take 1000 keys). \<not> key_fault sv k"
    and "batch_fault sv (drop 1000 keys) \<noteq> None \<or> (\<forall>k \<in> set (drop 1000 keys). key_fault sv k)"
  shows "fst (perform_direct_deletion sv [(p, keys)] w) = 1000 \<and>
         (count_and_list_objects sv user_id w = Inr (1500, [(p, keys)]) \<and>
          1500 \<le> DELETION_THRESHOLD cfg \<longrightarrow>
            fst (delete_user_account sv cfg user_id w) =
              Inr [(''status'', JStr ''completed''), (''userId'', JStr user_id),
                   (''objectCount'', JInt 1500), (''deletedCount'', JInt 1000),
                   (''method'', JStr ''direct''),
                   (''message'', JStr ''Account deleted successfully'')])"
proof -
  have one: "confirmed_deleted sv (take 1000 keys) = 1000"
    using assms(1,2,3) by (simp add: confirmed_deleted_def)
  have two: "confirmed_deleted sv (drop 1000 keys) = 0"
    using assms(4) by (auto simp: confirmed_deleted_def split: option.splits)
  have c: "fst (perform_direct_deletion sv [(p, keys)] w') = 1000" for w'
    by (simp add: perform_direct_deletion_count py_chunks_1500 [OF assms(1)] one two)
  have "fst (delete_user_account sv cfg user_id w) =
              Inr [(''status'', JStr ''completed''), (''userId'', JStr user_id),
                   (''objectCount'', JInt 1500), (''deletedCount'', JInt 1000),
                   (''method'', JStr ''direct''),
                   (''message'', JStr ''Account deleted successfully'')]"
    if h: "count_and_list_objects sv user_id w = Inr (1500, [(p, keys)])" "1500 \<le> DELETION_THRESHOLD cfg"
  proof -
    obtain c' w2 where pd: "perform_direct_deletion sv [(p, keys)] (cleanup_caught sv user_id w) = (c', w2)"
      by (cases "perform_direct_deletion sv [(p, keys)] (cleanup_caught sv user_id w)")
    then have "c' = 1000" using c [of "cleanup_caught sv user_id w"] by simp
    then show ?thesis using h pd by (simp add: delete_user_account_def Let_def)
  qed
  then show ?thesis using c [of w] by simp
qed

theorem direct_deletion_second_batch_fails_witness:
  "fst (perform_direct_deletion services_second_batch_fault
          [(''photos/u1/'', map photo_key [0..<1500])] (world_photos 1500)) = 1000 \<and>
   fst (delete_user_account services_second_batch_fault
          (config_development\<lparr>DELETION_THRESHOLD := 2000\<rparr>) ''u1'' (world_photos 1500)) =
     Inr [(''status'', JStr ''completed''), (''userId'', JStr ''u1''),
          (''objectCount'', JInt 1500), (''deletedCount'', JInt 1000),
          (''method'', JStr ''direct''),
          (''message'', JStr ''Account deleted successfully'')]"
proof -
  have s: "count_and_list_objects services_second_batch_fault ''u1'' (world_photos 1500) =
             Inr (1500, [(''photos/u1/'', map photo_key [0..<1500])])"
    by (rule scan_world_photos) (simp_all add: services_second_batch_fault_def services_ok_def)
  have h1: "length (map photo_key [0..<1500]) = 1500" by simp
  have h2: "batch_fault services_second_batch_fault (take 1000 (map photo_key [0..<1500])) = None"
    by (simp add: services_second_batch_fault_def)
  have h3: "\<forall>k \<in> set (take 1000 (map photo_key [0..<1500])). \<not> key_fault services_second_batch_fault k"
    by (simp add: services_second_batch_fault_def services_ok_def)
  have h4: "batch_fault services_second_batch_fault (drop 1000 (map photo_key [0..<1500])) \<noteq> None \<or>
            (\<forall>k \<in> set (drop 1000 (map photo_key [0..<1500])). key_fault services_second_batch_fault k)"
    by (simp add: services_second_batch_fault_def)
  have t: "1500 \<le> DELETION_THRESHOLD (config_development\<lparr>DELETION_THRESHOLD := 2000\<rparr>)" by simp
  show ?thesis
    using direct_deletion_second_batch_fails
            [OF h1 h2 h3 h4, of "''photos/u1/''" "world_photos 1500" "''u1''"
                "config_development\<lparr>DELETION_THRESHOLD := 2000\<rparr>"] s t
    by blast
qed

text \<open>The claim as worded fails: one of two keys is reported under \<open>Errors\<close>;
  the executor returns the number 1, and the outcome of the deletion names no
  failed key.\<close>

theorem direct_deletion_failed_keys_counterexample:
  "perform_direct_deletion services_key_fault
       [(''photos/u1/'', [''photos/u1/a.jpg'', ''photos/u1/b.jpg''])] world_two =
     (1, \<lparr>objects = [(''photos/u1/b.jpg'', ''B'')],
          delete_objects_calls = [[''photos/u1/a.jpg'', ''photos/u1/b.jpg'']],
          delete_object_calls = [], create_job_calls = []\<rparr>) \<and>
   fst (delete_user_account services_key_fault config_development ''u1'' world_two) =
     Inr [(''status'', JStr ''completed''), (''userId'', JStr ''u1''),
          (''objectCount'', JInt 2), (''deletedCount'', JInt 1),
          (''method'', JStr ''direct''),
          (''message'', JStr ''Account deleted successfully'')] \<and>
   map_of [(''status'', JStr ''completed''), (''userId'', JStr ''u1''),
          (''objectCount'', JInt 2), (''deletedCount'', JInt 1),
          (''method'', JStr ''direct''),
          (''message'', JStr ''Account deleted successfully'')] ''failedKeys'' = None"
  by code_simp

subsection \<open>Bulk job builder\<close>

text \<open>The manifest has one entry per key of the inventory, in inventory order,
  each the bucket name, a comma and the key; the entries are joined by newlines.
  Split at the newlines again it gives back these entries when neither the
  bucket name nor any key contains a newline.\<close>

lemma length_manifest_lines:
  "length (manifest_lines cfg obp) = sum_list (map (\<lambda>(p, keys). length keys) obp)"
  by (induction obp) (auto simp: manifest_lines_def)

lemma manifest_lines_eq:
  "manifest_lines cfg obp = map (\<lambda>key. BUCKET_NAME cfg @ '','' @ key) (concat (map snd obp))"
  by (induction obp) (auto simp: manifest_lines_def)

lemma py_split_no_sep: "c \<notin> set l \<Longrightarrow> py_split c l = [l]"
  by (induction l) auto

lemma py_split_append_sep:
  "c \<notin> set l \<Longrightarrow> py_split c (l @ c # rest) = l # py_split c rest"
  by (induction l) auto

lemma py_split_join:
  "lines \<noteq> [] \<Longrightarrow> (\<forall>l \<in> set lines. c \<notin> set l) \<Longrightarrow> py_split c (py_join [c] lines) = lines"
proof (induction "[c]" lines rule: py_join.induct)
  case 1
  then show ?case by simp
next
  case (2 x)
  then show ?case by (simp add: py_split_no_sep)
next
  case (3 x y ys)
  then show ?case by (simp add: py_split_append_sep)
qed

lemma manifest_one_line_per_object:
  assumes "concat (map snd obp) \<noteq> []"
    and "CHR 0x0A \<notin> set (BUCKET_NAME cfg)"
    and "\<forall>key \<in> set (concat (map snd obp)). CHR 0x0A \<notin> set key"
  shows "py_split (CHR 0x0A) (create_deletion_manifest cfg obp) =
           map (\<lambda>key. BUCKET_NAME cfg @ '','' @ key) (concat (map snd obp))"
proof -
  have "manifest_lines cfg obp \<noteq> []"
    using assms(1) by (simp add: manifest_lines_eq)
  moreover have "\<forall>l \<in> set (manifest_lines cfg obp). CHR 0x0A \<notin> set l"
    using assms(2,3) by (auto simp: manifest_lines_eq)
  ultimately show ?thesis
    unfolding create_deletion_manifest_def
    by (simp add: py_split_join manifest_lines_eq)
qed

text \<open>When the job builder returns, the job it submitted names the manifest
  object by its ARN and carries the tag that \<open>head_object\<close> returned for the
  uploaded manifest, without the surrounding double quotes; the manifest is
  stored under its key.\<close>

lemma create_batch_operations_job_request:
  assumes "fst (create_batch_operations_job sv cfg u obp w) = Inr job_id"
  shows "create_job_calls (snd (create_batch_operations_job sv cfg u obp w)) =
           create_job_calls w @
             [deletion_job_request cfg u (manifest_key_of sv u)
                (py_strip_chars (\<lambda>c. c = CHR 0x22) (etag_of sv (create_deletion_manifest cfg obp)))
                (report_prefix_of sv u)]"
  using assms
  by (auto simp: create_batch_operations_job_def Let_def s3_put_object_def s3_head_object_etag_def
        s3control_create_job_def map_of_put_sorted split: option.splits sum.splits prod.splits)

lemma map_of_put_sorted_other: "k \<noteq> k' \<Longrightarrow> map_of (put_sorted k' v xs) k = map_of xs k"
  by (induction xs) auto

lemma create_batch_operations_job_manifest_stored:
  assumes "fst (create_batch_operations_job sv cfg u obp w) = Inr job_id"
  shows "map_of (objects (snd (create_batch_operations_job sv cfg u obp w))) (manifest_key_of sv u) =
           Some (create_deletion_manifest cfg obp)"
proof -
  show ?thesis
    using assms
    by (auto simp: create_batch_operations_job_def Let_def s3_put_object_def s3_head_object_etag_def
          s3control_create_job_def map_of_put_sorted map_of_put_sorted_other manifest_key_of_def
          split: option.splits sum.splits prod.splits)
qed

text \<open>
  C3 (the code at the failing input). Keys are written into the manifest as
  they are. A key that contains a newline puts one object on two lines of the
  manifest; a key that contains a comma gives a line of three comma-separated
  fields. The last two parts run the whole bulk path for an account whose one
  object has a comma in its key: the job is created and the manifest uploaded
  holds that three-field line.
\<close>

theorem create_deletion_manifest_separator_in_key:
  "create_deletion_manifest config_development
       [(''photos/u1/'', [''photos/u1/a'' @ [CHR 0x0A] @ ''b.jpg''])] =
     ''photolala-dev,photos/u1/a'' @ [CHR 0x0A] @ ''b.jpg'' \<and>
   py_split (CHR 0x0A)
     (create_deletion_manifest config_development
        [(''photos/u1/'', [''photos/u1/a'' @ [CHR 0x0A] @ ''b.jpg''])]) =
     [''photolala-dev,photos/u1/a'', ''b.jpg''] \<and>
   py_split (CHR '','')
     (create_deletion_manifest config_development [(''photos/u1/'', [''photos/u1/a,b.jpg''])]) =
     [''photolala-dev'', ''photos/u1/a'', ''b.jpg''] \<and>
   fst (delete_user_account services_ok (config_development\<lparr>DELETION_THRESHOLD := 0\<rparr>)
          ''u1'' world_comma_key) =
     Inr [(''status'', JStr ''batch_job_created''), (''userId'', JStr ''u1''),
          (''jobId'', JStr ''job-1''), (''objectCount'', JInt 1),
          (''method'', JStr ''batch''),
          (''message'', JStr ''Batch job job-1 created for 1 objects'')] \<and>
   map_of (objects (snd (delete_user_account services_ok
                           (config_development\<lparr>DELETION_THRESHOLD := 0\<rparr>) ''u1'' world_comma_key)))
          ''batch-jobs/manifests/20240101-000000/u1-manifest.csv'' =
     Some ''photolala-dev,photos/u1/a,b.jpg''"
  by code_simp

subsection \<open>Auxiliary record cleaner\<close>





































subsection \<open>Deleting a user without objects\<close>









subsection \<open>Scheduled deletion sweeper\<close>

text \<open>An entry whose timestamp can be read is passed over when it is not yet
  due, which changes nothing, and is driven through the single-user deletion
  when it is due; the count returned is the number of recorded outcomes.\<close>

lemma sweep_entry_not_due:
  "read_delete_on sv w key = Inr t \<Longrightarrow> now_utc sv < t \<Longrightarrow>
   sweep_entry sv cfg key (results, w) = (results, w)"
  by (simp add: sweep_entry_def Let_def)

lemma sweep_entry_due:
  "read_delete_on sv w key = Inr t \<Longrightarrow> t \<le> now_utc sv \<Longrightarrow>
   sweep_entry sv cfg key (results, w) =
     (case delete_user_account sv cfg (py_replace ''.json'' [] (py_last_segment key)) w of
        (Inl e, w') \<Rightarrow>
          (results @ [[(''userId'', JStr (py_replace ''.json'' [] (py_last_segment key))),
                       (''status'', JStr ''error''), (''error'', JStr (str_exn e))]], w')
      | (Inr result, w') \<Rightarrow>
          (results @ [dict_merge [(''userId'', JStr (py_replace ''.json'' [] (py_last_segment key)))] result],
           w'))"
  by (simp add: sweep_entry_def Let_def)

lemma process_scheduled_deletions_processed:
  "\<exists>d. fst (process_scheduled_deletions sv cfg w) = Inr d \<and>
       map_of d ''processed'' =
         Some (JInt (case map_of d ''results'' of Some (JArr rs) \<Rightarrow> int (length rs) | _ \<Rightarrow> 0))"
  by (auto simp: process_scheduled_deletions_def Let_def split: sum.splits prod.splits)

text \<open>The scenario of two entries, one due an hour ago and one due in an hour:
  one outcome is recorded, for \<open>u1\<close>, and the entry of \<open>u2\<close> is still stored.\<close>

lemma process_scheduled_deletions_scenario:
  "process_scheduled_deletions services_sweep config_production world_sweep =
     (Inr [(''processed'', JInt 1),
           (''results'',
            JArr [JObj [(''userId'', JStr ''u1''), (''status'', JStr ''completed''),
                        (''objectCount'', JInt 0), (''method'', JStr ''none''),
                        (''message'', JStr ''No objects to delete'')]])],
      \<lparr>objects = [(''scheduled-deletions/2024-01-01/u2.json'', entry_body ''2024-01-01T13:00:00Z'')],
       delete_objects_calls = [],
       delete_object_calls = [''scheduled-deletions/2024-01-01/u1.json''],
       create_job_calls = []\<rparr>)"
  by code_simp

text \<open>
  C7 (the code at the failing input). Today's bucket holds the entry of user
  \<open>ab\<close>, due in an hour, and the entry of user \<open>b\<close>, due an hour ago. The sweep
  passes over \<open>ab\<close> and deletes the account of \<open>b\<close>; the cleanup for \<open>b\<close> removes
  the first record whose key contains \<open>b\<close>, which is the entry of \<open>ab\<close>. After
  the sweep the entry that was not due is gone and the entry that was processed
  is still stored.
\<close>

theorem process_scheduled_deletions_removes_entry_not_due:
  "read_delete_on services_sweep world_sweep_collision ''scheduled-deletions/2024-01-01/ab.json'' =
     Inr 1704114000 \<and>
   read_delete_on services_sweep world_sweep_collision ''scheduled-deletions/2024-01-01/b.json'' =
     Inr 1704106800 \<and>
   now_utc services_sweep = 1704110400 \<and>
   process_scheduled_deletions services_sweep config_production world_sweep_collision =
     (Inr [(''processed'', JInt 1),
           (''results'',
            JArr [JObj [(''userId'', JStr ''b''), (''status'', JStr ''completed''),
                        (''objectCount'', JInt 0), (''method'', JStr ''none''),
                        (''message'', JStr ''No objects to delete'')]])],
      \<lparr>objects = [(''scheduled-deletions/2024-01-01/b.json'', entry_body ''2024-01-01T11:00:00Z'')],
       delete_objects_calls = [],
       delete_object_calls = [''scheduled-deletions/2024-01-01/ab.json''],
       create_job_calls = []\<rparr>)"
  by code_simp

end
